theory Spec2Isabelle
  imports Main
begin

section \<open>Voice chat server and client: the message handlers\<close>

text \<open>
  The development embeds \<^verbatim>\<open>VoiceChatServer.handle_client\<close> with the three engine
  adapters it calls (\<^verbatim>\<open>src/test.py\<close>) and \<^verbatim>\<open>VoiceChatClient.receive_messages\<close>
  (\<^verbatim>\<open>src/client.py\<close>). Library calls whose code is not part of the repository
  (\<^verbatim>\<open>json.loads\<close>, base64, the Whisper model, the HTTP post, the ElevenLabs client)
  are fields of an environment record: every statement holds for every behaviour
  of these calls unless a hypothesis restricts it.
\<close>

subsection \<open>Data\<close>

type_synonym bytes = string
type_synonym path = string

text \<open>
  The value \<^verbatim>\<open>json.loads\<close> returns. \<open>JObj\<close> lists the items of the resulting
  dict, so its keys are distinct. Numbers are integers here: the handlers only test
  a number for truth. When \<^verbatim>\<open>json.loads\<close> does not return, the exception it raises
  is its result: \<^verbatim>\<open>JSONDecodeError\<close> for text that is not JSON, but also
  \<^verbatim>\<open>RecursionError\<close> for text nested too deeply and \<^verbatim>\<open>UnicodeDecodeError\<close> for a
  binary frame that is not UTF-8.
\<close>

datatype json =
    JNull
  | JBool bool
  | JNum int
  | JStr string
  | JArr "json list"
  | JObj "(string \<times> json) list"

datatype exn =
    JSONDecodeError
  | RecursionError
  | UnicodeDecodeError
  | KeyError string
  | AttributeError
  | TypeError
  | ValueError
  | FileNotFoundError
  | ConnectionClosed

datatype level = INFO | ERROR

datatype engine_call =
    Transcribe path
  | Generate string
  | Synthesize string path

text \<open>
  What a handler does that is visible from outside, in the order it happens. A log
  line is its level and its text; where the source appends the text of a caught
  exception or of a response body, the line stops before it.
\<close>

datatype event =
    Log level string
  | Invoke engine_call
  | Sent json
  | Unlink path

text \<open>
  The outcome of \<^verbatim>\<open>session.post\<close>: it raises (network error, timeout), or it returns
  a response with a status; \<open>text_ok\<close> tells whether reading the body as text
  succeeds, \<open>content\<close> is \<^verbatim>\<open>response.json()["choices"][0]["message"]["content"]\<close>
  or \<open>None\<close> when that expression raises.
\<close>

record http_response =
  status :: nat
  text_ok :: bool
  content :: "string option"

datatype post_result = PostRaised | PostReturned http_response

text \<open>
  The outcome of \<^verbatim>\<open>text_to_speech.convert\<close> and of iterating over its result:
  the call raises before the output file is opened, or it yields chunks and the
  iteration ends normally (\<open>True\<close>) or raises after them (\<open>False\<close>).
\<close>

datatype tts_result = ConvertRaised | Chunks "bytes list" bool

record env =
  json_loads :: "string \<Rightarrow> exn + json"
  b64decode :: "string \<Rightarrow> bytes option"
  b64encode :: "bytes \<Rightarrow> string"
  whisper :: "bytes \<Rightarrow> string list option"
  groq :: "string \<Rightarrow> post_result"
  elevenlabs :: "string \<Rightarrow> tts_result"

text \<open>
  A connection: the identifier \<^verbatim>\<open>id(websocket)\<close>, the \<^verbatim>\<open>path\<close> attribute when
  there is one, and the number of envelopes the peer accepts before the connection
  is closed (\<open>None\<close>: it stays open); a send on a closed connection raises
  \<^verbatim>\<open>ConnectionClosed\<close>.
\<close>

record websocket =
  ws_id :: nat
  ws_path :: "string option"
  closes_after :: "nat option"

record server_state =
  files :: "path \<rightharpoonup> bytes"
  trace :: "event list"

type_synonym 'a action = "server_state \<Rightarrow> (exn + 'a) \<times> server_state"

subsection \<open>Sequencing, exceptions and side effects\<close>

definition ret :: "'a \<Rightarrow> 'a action" where
  "ret x = (\<lambda>s. (Inr x, s))"

definition raise :: "exn \<Rightarrow> 'a action" where
  "raise e = (\<lambda>s. (Inl e, s))"

definition and_then :: "'a action \<Rightarrow> ('a \<Rightarrow> 'b action) \<Rightarrow> 'b action" where
  "and_then m f = (\<lambda>s. case m s of (Inl e, s') \<Rightarrow> (Inl e, s') | (Inr x, s') \<Rightarrow> f x s')"

definition emit :: "event \<Rightarrow> unit action" where
  "emit ev = (\<lambda>s. (Inr (), s\<lparr>trace := trace s @ [ev]\<rparr>))"

definition sent_of :: "event list \<Rightarrow> json list" where
  "sent_of tr = concat (map (\<lambda>ev. case ev of Sent j \<Rightarrow> [j] | _ \<Rightarrow> []) tr)"

definition calls_of :: "event list \<Rightarrow> engine_call list" where
  "calls_of tr = concat (map (\<lambda>ev. case ev of Invoke c \<Rightarrow> [c] | _ \<Rightarrow> []) tr)"

definition unlinks_of :: "event list \<Rightarrow> path list" where
  "unlinks_of tr = concat (map (\<lambda>ev. case ev of Unlink p \<Rightarrow> [p] | _ \<Rightarrow> []) tr)"

definition logs_of :: "event list \<Rightarrow> (level \<times> string) list" where
  "logs_of tr = concat (map (\<lambda>ev. case ev of Log l m \<Rightarrow> [(l, m)] | _ \<Rightarrow> []) tr)"

definition websocket_send :: "websocket \<Rightarrow> json \<Rightarrow> unit action" where
  "websocket_send ws j = (\<lambda>s.
     if (case closes_after ws of None \<Rightarrow> True | Some n \<Rightarrow> length (sent_of (trace s)) < n)
     then emit (Sent j) s
     else raise ConnectionClosed s)"

definition open_wb :: "path \<Rightarrow> unit action" where
  "open_wb p = (\<lambda>s. (Inr (), s\<lparr>files := (files s)(p \<mapsto> [])\<rparr>))"

definition write_bytes :: "path \<Rightarrow> bytes \<Rightarrow> unit action" where
  "write_bytes p b = (\<lambda>s.
     (Inr (), s\<lparr>files := (files s)(p \<mapsto> (case files s p of None \<Rightarrow> [] | Some old \<Rightarrow> old) @ b)\<rparr>))"

definition read_bytes :: "path \<Rightarrow> bytes action" where
  "read_bytes p = (\<lambda>s. case files s p of None \<Rightarrow> (Inl FileNotFoundError, s) | Some b \<Rightarrow> (Inr b, s))"

definition unlink_missing_ok :: "path \<Rightarrow> unit action" where
  "unlink_missing_ok p = (\<lambda>s. (Inr (), s\<lparr>files := (files s)(p := None), trace := trace s @ [Unlink p]\<rparr>))"

subsection \<open>Names of the scratch files\<close>

text \<open>The f-string renders \<^verbatim>\<open>client_id\<close>, a non-negative integer, in decimal.\<close>

definition digit :: "nat \<Rightarrow> char" where
  "digit d = ''0123456789'' ! d"

fun decimal :: "nat \<Rightarrow> string" where
  "decimal n = (if n < 10 then [digit n] else decimal (n div 10) @ [digit (n mod 10)])"

declare decimal.simps [simp del]

definition audio_file :: "websocket \<Rightarrow> path" where
  "audio_file ws = ''temp_audio/client_'' @ decimal (ws_id ws) @ ''.wav''"

definition tts_output :: "websocket \<Rightarrow> path" where
  "tts_output ws = ''temp_audio/client_'' @ decimal (ws_id ws) @ ''.mp3''"

subsection \<open>Envelopes\<close>

definition transcription_envelope :: "string \<Rightarrow> json" where
  "transcription_envelope t = JObj [(''type'', JStr ''transcription''), (''text'', JStr t)]"

definition response_envelope :: "string \<Rightarrow> json" where
  "response_envelope t = JObj [(''type'', JStr ''response''), (''text'', JStr t)]"

definition audio_envelope :: "string \<Rightarrow> json" where
  "audio_envelope a = JObj [(''type'', JStr ''audio''), (''audio_data'', JStr a)]"

definition error_envelope :: "string \<Rightarrow> json" where
  "error_envelope m = JObj [(''type'', JStr ''error''), (''message'', JStr m)]"

text \<open>\<^verbatim>\<open>data.get(key)\<close> on a dict, and the truth value Python gives its result.\<close>

definition dict_get :: "(string \<times> json) list \<Rightarrow> string \<Rightarrow> json option" where
  "dict_get d k = map_of d k"

fun truthy :: "json option \<Rightarrow> bool" where
  "truthy None = False"
| "truthy (Some JNull) = False"
| "truthy (Some (JBool b)) = b"
| "truthy (Some (JNum n)) = (n \<noteq> 0)"
| "truthy (Some (JStr s)) = (s \<noteq> [])"
| "truthy (Some (JArr xs)) = (xs \<noteq> [])"
| "truthy (Some (JObj d)) = (d \<noteq> [])"

subsection \<open>The engine adapters\<close>

text \<open>\<^verbatim>\<open>" ".join(...)\<close>\<close>

fun join_space :: "string list \<Rightarrow> string" where
  "join_space [] = []"
| "join_space [x] = x"
| "join_space (x # y # ys) = x @ '' '' @ join_space (y # ys)"

text \<open>
  \<^verbatim>\<open>SpeechToText.transcribe\<close>: the value returned, given what the model call did
  (\<open>None\<close>: it raised), and the adapter with its log lines. The model reads the
  file at the path; a missing file makes it raise.
\<close>

fun transcription_text :: "string list option \<Rightarrow> string" where
  "transcription_text None = []"
| "transcription_text (Some segments) = join_space segments"

definition model_transcribe :: "env \<Rightarrow> path \<Rightarrow> server_state \<Rightarrow> string list option" where
  "model_transcribe env p s = (case files s p of None \<Rightarrow> None | Some b \<Rightarrow> whisper env b)"

definition transcribe :: "env \<Rightarrow> path \<Rightarrow> string action" where
  "transcribe env audio_path =
     and_then (emit (Log INFO (''Transcribing audio file: '' @ audio_path))) (\<lambda>_.
     and_then (emit (Invoke (Transcribe audio_path))) (\<lambda>_ s.
       (case model_transcribe env audio_path s of
          Some segments \<Rightarrow>
            and_then (emit (Log INFO (''Transcription: '' @ join_space segments))) (\<lambda>_.
            ret (transcription_text (Some segments))) s
        | None \<Rightarrow>
            and_then (emit (Log ERROR ''Transcription error'')) (\<lambda>_.
            ret (transcription_text None)) s)))"

text \<open>\<^verbatim>\<open>AIModel.generate_response\<close>: the value returned, and the adapter.\<close>

fun reply_text :: "post_result \<Rightarrow> string" where
  "reply_text PostRaised = ''Network error occurred.''"
| "reply_text (PostReturned r) =
     (if status r \<noteq> 200 then
        (if text_ok r then ''Sorry, I couldn't process your request.''
         else ''Network error occurred.'')
      else (case content r of
              None \<Rightarrow> ''Network error occurred.''
            | Some response_text \<Rightarrow> response_text))"

definition generate_response :: "env \<Rightarrow> string \<Rightarrow> string action" where
  "generate_response env text =
     and_then (emit (Invoke (Generate text))) (\<lambda>_.
       (case groq env text of
          PostRaised \<Rightarrow>
            and_then (emit (Log ERROR ''Groq API network error'')) (\<lambda>_.
            ret (reply_text PostRaised))
        | PostReturned r \<Rightarrow>
            (if status r \<noteq> 200 then
               (if text_ok r then
                  and_then (emit (Log ERROR (''Groq API error '' @ decimal (status r)))) (\<lambda>_.
                  ret (reply_text (PostReturned r)))
                else
                  and_then (emit (Log ERROR ''Groq API network error'')) (\<lambda>_.
                  ret (reply_text (PostReturned r))))
             else (case content r of
                     None \<Rightarrow>
                       and_then (emit (Log ERROR ''Groq API network error'')) (\<lambda>_.
                       ret (reply_text (PostReturned r)))
                   | Some response_text \<Rightarrow>
                       and_then (emit (Log INFO (''AI Response: '' @ response_text))) (\<lambda>_.
                       ret (reply_text (PostReturned r)))))))"

text \<open>\<^verbatim>\<open>TextToSpeech.synthesize\<close>: the Boolean returned, and the adapter.\<close>

fun synthesized :: "tts_result \<Rightarrow> bool" where
  "synthesized ConvertRaised = False"
| "synthesized (Chunks cs finished) = finished"

definition synthesize :: "env \<Rightarrow> string \<Rightarrow> path \<Rightarrow> bool action" where
  "synthesize env text output_path =
     and_then (emit (Log INFO (''Synthesizing TTS for text: '' @ text))) (\<lambda>_.
     and_then (emit (Invoke (Synthesize text output_path))) (\<lambda>_.
       (case elevenlabs env text of
          ConvertRaised \<Rightarrow>
            and_then (emit (Log ERROR ''TTS synthesis error'')) (\<lambda>_.
            ret (synthesized ConvertRaised))
        | Chunks cs finished \<Rightarrow>
            and_then (open_wb output_path) (\<lambda>_.
            and_then (write_bytes output_path (concat cs)) (\<lambda>_.
              (if finished then
                 and_then (emit (Log INFO (''TTS audio saved to: '' @ output_path))) (\<lambda>_.
                 ret (synthesized (Chunks cs finished)))
               else
                 and_then (emit (Log ERROR ''TTS synthesis error'')) (\<lambda>_.
                 ret (synthesized (Chunks cs finished)))))))))"

subsection \<open>The server's handler\<close>

text \<open>
  The body of the inner \<^verbatim>\<open>try\<close> of \<^verbatim>\<open>handle_client\<close>, for one message. The
  scratch file is opened before the argument of \<^verbatim>\<open>f.write\<close> is evaluated, so a
  failing \<^verbatim>\<open>b64decode\<close> leaves it in place, empty.
\<close>

definition decode_audio_data :: "env \<Rightarrow> json option \<Rightarrow> bytes action" where
  "decode_audio_data env v =
     (case v of
        None \<Rightarrow> raise (KeyError ''audio_data'')
      | Some (JStr a) \<Rightarrow> (case b64decode env a of None \<Rightarrow> raise ValueError | Some b \<Rightarrow> ret b)
      | Some _ \<Rightarrow> raise TypeError)"

definition process_message :: "env \<Rightarrow> websocket \<Rightarrow> string \<Rightarrow> unit action" where
  "process_message env ws message =
     (case json_loads env message of
        Inl e \<Rightarrow> raise e
      | Inr data \<Rightarrow>
          (case data of
             JObj d \<Rightarrow>
               if dict_get d ''type'' = Some (JStr ''audio'') \<and> truthy (dict_get d ''audio_data'') then
                 and_then (open_wb (audio_file ws)) (\<lambda>_.
                 and_then (decode_audio_data env (dict_get d ''audio_data'')) (\<lambda>b.
                 and_then (write_bytes (audio_file ws) b) (\<lambda>_.
                 and_then (emit (Log INFO (''Received audio file: '' @ audio_file ws))) (\<lambda>_.
                 and_then (transcribe env (audio_file ws)) (\<lambda>transcription.
                 and_then (websocket_send ws (transcription_envelope transcription)) (\<lambda>_.
                 and_then (generate_response env transcription) (\<lambda>response_text.
                 and_then (websocket_send ws (response_envelope response_text)) (\<lambda>_.
                 and_then (synthesize env response_text (tts_output ws)) (\<lambda>ok.
                 and_then
                   (if ok then
                      and_then (read_bytes (tts_output ws)) (\<lambda>audio.
                      websocket_send ws (audio_envelope (b64encode env audio)))
                    else websocket_send ws (error_envelope ''TTS synthesis failed.'')) (\<lambda>_.
                 and_then (unlink_missing_ok (audio_file ws)) (\<lambda>_.
                 unlink_missing_ok (tts_output ws))))))))))))
               else ret ()
           | _ \<Rightarrow> raise AttributeError))"

text \<open>The \<^verbatim>\<open>except\<close> clauses of the inner \<^verbatim>\<open>try\<close>: each one logs and nothing else.\<close>

fun on_exception :: "exn \<Rightarrow> event" where
  "on_exception JSONDecodeError = Log ERROR ''Invalid JSON message received.''"
| "on_exception (KeyError k) = Log ERROR (''Missing key in message: '' @ k)"
| "on_exception e = Log ERROR ''Error processing message''"

definition handle_message :: "env \<Rightarrow> websocket \<Rightarrow> string \<Rightarrow> server_state \<Rightarrow> server_state" where
  "handle_message env ws message s =
     (case process_message env ws message s of
        (Inr _, s') \<Rightarrow> s'
      | (Inl e, s') \<Rightarrow> s'\<lparr>trace := trace s' @ [on_exception e]\<rparr>)"

text \<open>
  \<^verbatim>\<open>handle_client\<close>: the messages the connection yields, and whether the iteration
  ends by raising \<^verbatim>\<open>ConnectionClosed\<close>.
\<close>

fun read_loop :: "env \<Rightarrow> websocket \<Rightarrow> string list \<Rightarrow> server_state \<Rightarrow> server_state" where
  "read_loop env ws [] s = s"
| "read_loop env ws (message # rest) s = read_loop env ws rest (handle_message env ws message s)"

definition handle_client :: "env \<Rightarrow> websocket \<Rightarrow> string list \<Rightarrow> bool \<Rightarrow> server_state \<Rightarrow> server_state" where
  "handle_client env ws messages closed_with_error s =
     (let s1 = s\<lparr>trace := trace s @
                 [Log INFO (''Client connected: '' @ decimal (ws_id ws) @ '', path: '' @
                    (case ws_path ws of None \<Rightarrow> ''unknown'' | Some p \<Rightarrow> p))]\<rparr>;
          s2 = read_loop env ws messages s1
      in if closed_with_error
         then s2\<lparr>trace := trace s2 @ [Log INFO (''Client disconnected: '' @ decimal (ws_id ws))]\<rparr>
         else s2)"

text \<open>
  The envelope the handler sends after the synthesis stage, given what the synthesis
  call did: the synthesized audio, read back from the output file, or the error.
\<close>

fun last_envelope :: "env \<Rightarrow> tts_result \<Rightarrow> json" where
  "last_envelope env ConvertRaised = error_envelope ''TTS synthesis failed.''"
| "last_envelope env (Chunks cs finished) =
     (if finished then audio_envelope (b64encode env (concat cs))
      else error_envelope ''TTS synthesis failed.'')"

subsection \<open>The client's receiver\<close>

text \<open>
  What \<^verbatim>\<open>receive_messages\<close> does for one message: a log line, or a call of
  \<^verbatim>\<open>play_audio_from_base64\<close> (which catches its own exceptions). Only
  \<^verbatim>\<open>ConnectionClosed\<close> is caught around the loop, so any other exception ends it.
\<close>

datatype client_event =
    ClientLog string
  | ClientLogValue string json
  | Play json

definition on_message :: "env \<Rightarrow> string \<Rightarrow> client_event list \<times> exn option" where
  "on_message env message =
     (case json_loads env message of
        Inl e \<Rightarrow> ([], Some e)
      | Inr data \<Rightarrow>
          (case data of
             JObj d \<Rightarrow>
               if dict_get d ''type'' = Some (JStr ''audio'') then
                 (case dict_get d ''audio_data'' of
                    None \<Rightarrow> ([ClientLog ''Playing received TTS audio.''], Some (KeyError ''audio_data''))
                  | Some v \<Rightarrow> ([ClientLog ''Playing received TTS audio.'', Play v], None))
               else if dict_get d ''type'' = Some (JStr ''transcription'') then
                 (case dict_get d ''text'' of
                    None \<Rightarrow> ([], Some (KeyError ''text''))
                  | Some v \<Rightarrow> ([ClientLogValue ''Transcription: '' v], None))
               else if dict_get d ''type'' = Some (JStr ''response'') then
                 (case dict_get d ''text'' of
                    None \<Rightarrow> ([], Some (KeyError ''text''))
                  | Some v \<Rightarrow> ([ClientLogValue ''AI Response: '' v], None))
               else ([], None)
           | _ \<Rightarrow> ([], Some AttributeError)))"

fun receive_loop :: "env \<Rightarrow> string list \<Rightarrow> client_event list \<times> exn option" where
  "receive_loop env [] = ([], None)"
| "receive_loop env (message # rest) =
     (case on_message env message of
        (evs, Some e) \<Rightarrow> (evs, Some e)
      | (evs, None) \<Rightarrow> (case receive_loop env rest of (evs', r) \<Rightarrow> (evs @ evs', r)))"

definition receive_messages :: "env \<Rightarrow> string list \<Rightarrow> bool \<Rightarrow> client_event list \<times> exn option" where
  "receive_messages env messages closed_with_error =
     (case receive_loop env messages of
        (evs, Some e) \<Rightarrow> (evs, Some e)
      | (evs, None) \<Rightarrow>
          (if closed_with_error then (evs @ [ClientLog ''Connection closed by server.''], None)
           else (evs, None)))"

subsection \<open>A concrete environment for closed examples\<close>

text \<open>
  The messages: an \<^verbatim>\<open>audio\<close> envelope with valid base64, one whose
  \<^verbatim>\<open>audio_data\<close> is not valid base64, one whose \<^verbatim>\<open>audio_data\<close> is empty, an
  \<^verbatim>\<open>error\<close> envelope, and a binary frame of the one byte \<^verbatim>\<open>0xFF\<close>, which is not
  UTF-8; every other message is not JSON. The speech model raises, the chat
  backend answers 500, and synthesis yields two chunks.
\<close>

definition msg_audio :: string where
  \<open>msg_audio = ''{"type": "audio", "audio_data": "QQ=="}''\<close>

definition msg_bad_base64 :: string where
  \<open>msg_bad_base64 = ''{"type": "audio", "audio_data": "Q"}''\<close>

definition msg_empty_audio :: string where
  \<open>msg_empty_audio = ''{"type": "audio", "audio_data": ""}''\<close>

definition msg_error :: string where
  \<open>msg_error = ''{"type": "error", "message": "TTS synthesis failed."}''\<close>

definition msg_binary :: string where
  "msg_binary = [CHR 0xFF]"

definition example_env :: env where
  "example_env = \<lparr>
     json_loads = (\<lambda>m.
       if m = msg_audio then Inr (JObj [(''type'', JStr ''audio''), (''audio_data'', JStr ''QQ=='')])
       else if m = msg_bad_base64 then Inr (JObj [(''type'', JStr ''audio''), (''audio_data'', JStr ''Q'')])
       else if m = msg_empty_audio then Inr (JObj [(''type'', JStr ''audio''), (''audio_data'', JStr [])])
       else if m = msg_error then Inr (error_envelope ''TTS synthesis failed.'')
       else if m = msg_binary then Inl UnicodeDecodeError
       else Inl JSONDecodeError),
     b64decode = (\<lambda>a. if a = ''QQ=='' then Some ''A'' else None),
     b64encode = (\<lambda>b. if b = ''ID3'' then ''SUQz'' else []),
     whisper = (\<lambda>b. None),
     groq = (\<lambda>t. PostReturned \<lparr>status = 500, text_ok = True, content = None\<rparr>),
     elevenlabs = (\<lambda>t. Chunks [''ID'', ''3''] True)\<rparr>"

text \<open>
  The same with a chat backend that answers 200 and whose body cannot be read (a
  timeout or a network error inside \<^verbatim>\<open>response.json()\<close>, or a body without the
  expected keys).
\<close>

definition broken_body_env :: env where
  "broken_body_env =
     example_env\<lparr>groq := (\<lambda>t. PostReturned \<lparr>status = 200, text_ok = True, content = None\<rparr>)\<rparr>"

text \<open>The same with a speech model that hears silence and a synthesis call that raises.\<close>

definition silent_env :: env where
  "silent_env = example_env\<lparr>whisper := (\<lambda>b. Some []), elevenlabs := (\<lambda>t. ConvertRaised)\<rparr>"

definition example_ws :: websocket where
  "example_ws = \<lparr>ws_id = 7, ws_path = None, closes_after = None\<rparr>"

definition closing_ws :: websocket where
  "closing_ws = \<lparr>ws_id = 7, ws_path = None, closes_after = Some 0\<rparr>"

definition closing_late_ws :: websocket where
  "closing_late_ws = \<lparr>ws_id = 7, ws_path = None, closes_after = Some 2\<rparr>"

definition start_state :: server_state where
  "start_state = \<lparr>files = Map.empty, trace = []\<rparr>"

section \<open>Symbolic execution of the handler\<close>

text \<open>
  Projections of the trace, the effect of each primitive under \<open>and_then\<close>, the value
  and the effect of each adapter, and from these the envelopes, engine calls and
  files of one whole run.
\<close>

lemma sent_of_simps [simp]:
  "sent_of [] = []"
  "sent_of (xs @ ys) = sent_of xs @ sent_of ys"
  "sent_of (Sent j # xs) = j # sent_of xs"
  "sent_of (Log l m # xs) = sent_of xs"
  "sent_of (Invoke c # xs) = sent_of xs"
  "sent_of (Unlink p # xs) = sent_of xs"
  by (simp_all add: sent_of_def)

lemma calls_of_simps [simp]:
  "calls_of [] = []"
  "calls_of (xs @ ys) = calls_of xs @ calls_of ys"
  "calls_of (Sent j # xs) = calls_of xs"
  "calls_of (Log l m # xs) = calls_of xs"
  "calls_of (Invoke c # xs) = c # calls_of xs"
  "calls_of (Unlink p # xs) = calls_of xs"
  by (simp_all add: calls_of_def)

lemma unlinks_of_simps [simp]:
  "unlinks_of [] = []"
  "unlinks_of (xs @ ys) = unlinks_of xs @ unlinks_of ys"
  "unlinks_of (Sent j # xs) = unlinks_of xs"
  "unlinks_of (Log l m # xs) = unlinks_of xs"
  "unlinks_of (Invoke c # xs) = unlinks_of xs"
  "unlinks_of (Unlink p # xs) = p # unlinks_of xs"
  by (simp_all add: unlinks_of_def)

lemma paths_distinct [simp]: "audio_file ws \<noteq> tts_output ws" "tts_output ws \<noteq> audio_file ws"
  by (simp_all add: audio_file_def tts_output_def)

lemma and_then_emit [simp]:
  "and_then (emit ev) f s = f () (s\<lparr>trace := trace s @ [ev]\<rparr>)"
  by (simp add: and_then_def emit_def)

lemma and_then_ret [simp]: "and_then (ret x) f s = f x s"
  by (simp add: and_then_def ret_def)

lemma and_then_raise [simp]: "and_then (raise e) f s = (Inl e, s)"
  by (simp add: and_then_def raise_def)

lemma and_then_open_wb [simp]:
  "and_then (open_wb p) f s = f () (s\<lparr>files := (files s)(p \<mapsto> [])\<rparr>)"
  by (simp add: and_then_def open_wb_def)

lemma and_then_write_bytes [simp]:
  "and_then (write_bytes p b) f s =
     f () (s\<lparr>files := (files s)(p \<mapsto> (case files s p of None \<Rightarrow> [] | Some old \<Rightarrow> old) @ b)\<rparr>)"
  by (simp add: and_then_def write_bytes_def)

lemma and_then_unlink [simp]:
  "and_then (unlink_missing_ok p) f s =
     f () (s\<lparr>files := (files s)(p := None), trace := trace s @ [Unlink p]\<rparr>)"
  by (simp add: and_then_def unlink_missing_ok_def)

lemma and_then_assoc [simp]:
  "and_then (and_then m f) g = and_then m (\<lambda>x. and_then (f x) g)"
  by (auto simp: and_then_def fun_eq_iff split: prod.splits sum.splits)

lemma unlink_last:
  "unlink_missing_ok p s = (Inr (), s\<lparr>files := (files s)(p := None), trace := trace s @ [Unlink p]\<rparr>)"
  by (simp add: unlink_missing_ok_def)

lemma and_then_read_bytes [simp]:
  "and_then (read_bytes p) f s =
     (case files s p of None \<Rightarrow> (Inl FileNotFoundError, s) | Some b \<Rightarrow> f b s)"
  by (simp add: and_then_def read_bytes_def split: option.splits)

lemma and_then_send:
  "and_then (websocket_send ws j) f s =
     (if (case closes_after ws of None \<Rightarrow> True | Some n \<Rightarrow> length (sent_of (trace s)) < n)
      then f () (s\<lparr>trace := trace s @ [Sent j]\<rparr>)
      else (Inl ConnectionClosed, s))"
  by (simp add: and_then_def websocket_send_def emit_def raise_def)

lemma send_last:
  "websocket_send ws j s =
     (if (case closes_after ws of None \<Rightarrow> True | Some n \<Rightarrow> length (sent_of (trace s)) < n)
      then (Inr (), s\<lparr>trace := trace s @ [Sent j]\<rparr>)
      else (Inl ConnectionClosed, s))"
  by (simp add: websocket_send_def emit_def raise_def)

lemma transcribe_fst:
  "fst (transcribe env p s) = Inr (transcription_text (model_transcribe env p s))"
  by (simp add: transcribe_def model_transcribe_def ret_def split: option.splits)

lemma and_then_transcribe [simp]:
  "and_then (transcribe env p) f s =
     f (transcription_text (model_transcribe env p s)) (snd (transcribe env p s))"
  using transcribe_fst [of env p s]
  by (cases "transcribe env p s") (simp add: and_then_def)

lemma transcribe_snd [simp]:
  "files (snd (transcribe env p s)) = files s"
  "sent_of (trace (snd (transcribe env p s))) = sent_of (trace s)"
  "calls_of (trace (snd (transcribe env p s))) = calls_of (trace s) @ [Transcribe p]"
  "unlinks_of (trace (snd (transcribe env p s))) = unlinks_of (trace s)"
  by (simp_all add: transcribe_def model_transcribe_def ret_def split: option.splits)

lemma generate_fst:
  "fst (generate_response env t s) = Inr (reply_text (groq env t))"
  by (simp add: generate_response_def ret_def split: option.splits post_result.splits)

lemma and_then_generate [simp]:
  "and_then (generate_response env t) f s =
     f (reply_text (groq env t)) (snd (generate_response env t s))"
  using generate_fst [of env t s]
  by (cases "generate_response env t s") (simp add: and_then_def)

lemma generate_snd [simp]:
  "files (snd (generate_response env t s)) = files s"
  "sent_of (trace (snd (generate_response env t s))) = sent_of (trace s)"
  "calls_of (trace (snd (generate_response env t s))) = calls_of (trace s) @ [Generate t]"
  "unlinks_of (trace (snd (generate_response env t s))) = unlinks_of (trace s)"
  by (simp_all add: generate_response_def ret_def split: option.splits post_result.splits)

lemma synthesize_fst:
  "fst (synthesize env t p s) = Inr (synthesized (elevenlabs env t))"
  by (simp add: synthesize_def ret_def split: tts_result.splits option.splits)

lemma and_then_synthesize [simp]:
  "and_then (synthesize env t p) f s =
     f (synthesized (elevenlabs env t)) (snd (synthesize env t p s))"
  using synthesize_fst [of env t p s]
  by (cases "synthesize env t p s") (simp add: and_then_def)

lemma synthesize_snd [simp]:
  "files (snd (synthesize env t p s)) =
     (case elevenlabs env t of ConvertRaised \<Rightarrow> files s | Chunks cs fin \<Rightarrow> (files s)(p \<mapsto> concat cs))"
  "sent_of (trace (snd (synthesize env t p s))) = sent_of (trace s)"
  "calls_of (trace (snd (synthesize env t p s))) = calls_of (trace s) @ [Synthesize t p]"
  "unlinks_of (trace (snd (synthesize env t p s))) = unlinks_of (trace s)"
  by (simp_all add: synthesize_def ret_def split: tts_result.splits option.splits)


lemma logs_of_simps [simp]:
  "logs_of [] = []"
  "logs_of (xs @ ys) = logs_of xs @ logs_of ys"
  "logs_of (Sent j # xs) = logs_of xs"
  "logs_of (Log l m # xs) = (l, m) # logs_of xs"
  "logs_of (Invoke c # xs) = logs_of xs"
  "logs_of (Unlink p # xs) = logs_of xs"
  by (simp_all add: logs_of_def)

lemmas run_defs = handle_message_def process_message_def decode_audio_data_def and_then_send
  send_last model_transcribe_def unlink_last

lemma run_sent:
  assumes "json_loads env message = Inr (JObj d)"
    and "dict_get d ''type'' = Some (JStr ''audio'')"
    and "dict_get d ''audio_data'' = Some (JStr a)"
    and "a \<noteq> []"
    and "b64decode env a = Some b"
    and "closes_after ws = None"
  shows "sent_of (trace (handle_message env ws message s)) =
     sent_of (trace s) @
       [transcription_envelope (transcription_text (whisper env b)),
        response_envelope (reply_text (groq env (transcription_text (whisper env b)))),
        last_envelope env (elevenlabs env (reply_text (groq env (transcription_text (whisper env b)))))]"
  using assms by (simp add: run_defs split: tts_result.splits option.splits)

lemma run_calls:
  assumes "json_loads env message = Inr (JObj d)"
    and "dict_get d ''type'' = Some (JStr ''audio'')"
    and "dict_get d ''audio_data'' = Some (JStr a)"
    and "a \<noteq> []"
    and "b64decode env a = Some b"
    and "closes_after ws = None"
  shows "calls_of (trace (handle_message env ws message s)) =
     calls_of (trace s) @
       [Transcribe (audio_file ws),
        Generate (transcription_text (whisper env b)),
        Synthesize (reply_text (groq env (transcription_text (whisper env b)))) (tts_output ws)]"
  using assms by (simp add: run_defs split: tts_result.splits option.splits)

lemma run_files:
  assumes "json_loads env message = Inr (JObj d)"
    and "dict_get d ''type'' = Some (JStr ''audio'')"
    and "dict_get d ''audio_data'' = Some (JStr a)"
    and "a \<noteq> []"
    and "b64decode env a = Some b"
    and "closes_after ws = None"
  shows "files (handle_message env ws message s) =
           (files s)(audio_file ws := None, tts_output ws := None)"
    and "unlinks_of (trace (handle_message env ws message s)) =
           unlinks_of (trace s) @ [audio_file ws, tts_output ws]"
  using assms by (simp_all add: run_defs fun_upd_twist split: tts_result.splits option.splits)

lemma run_sent_prefix:
  assumes "json_loads env message = Inr (JObj d)"
    and "dict_get d ''type'' = Some (JStr ''audio'')"
    and "dict_get d ''audio_data'' = Some (JStr a)"
    and "a \<noteq> []"
    and "b64decode env a = Some b"
  shows "\<exists>k. sent_of (trace (handle_message env ws message s)) =
     sent_of (trace s) @ take k
       [transcription_envelope (transcription_text (whisper env b)),
        response_envelope (reply_text (groq env (transcription_text (whisper env b)))),
        last_envelope env (elevenlabs env (reply_text (groq env (transcription_text (whisper env b)))))]"
proof (cases "closes_after ws")
  case None
  from run_sent [OF assms None, of s] show ?thesis
    by (intro exI [of _ 3]) simp
next
  case (Some n)
  let ?l = "length (sent_of (trace s))"
  consider "n \<le> ?l" | "n = ?l + 1" | "n = ?l + 2" | "?l + 3 \<le> n" by linarith
  then show ?thesis
  proof cases
    case 1
    with assms Some show ?thesis
      by (intro exI [of _ 0]) (simp add: run_defs split: tts_result.splits option.splits)
  next
    case 2
    with assms Some show ?thesis
      by (intro exI [of _ 1]) (simp add: run_defs split: tts_result.splits option.splits)
  next
    case 3
    with assms Some show ?thesis
      by (intro exI [of _ 2]) (simp add: run_defs split: tts_result.splits option.splits)
  next
    case 4
    with assms Some show ?thesis
      by (intro exI [of _ 3]) (simp add: run_defs split: tts_result.splits option.splits)
  qed
qed

lemma example_paths:
  "audio_file example_ws = ''temp_audio/client_7.wav''"
  "tts_output example_ws = ''temp_audio/client_7.mp3''"
  by (simp_all add: audio_file_def tts_output_def example_ws_def decimal.simps digit_def)

lemmas example_defs = example_env_def silent_env_def example_ws_def start_state_def msg_binary_def
  msg_audio_def msg_bad_base64_def msg_empty_audio_def msg_error_def dict_get_def

section \<open>Messages that start no run\<close>

text \<open>
  C9: a decoded message whose \<^verbatim>\<open>type\<close> is \<^verbatim>\<open>audio\<close> and whose \<^verbatim>\<open>audio_data\<close> is
  absent, null or the empty string leaves the server as it was: no scratch file, no
  engine call, no envelope, no log line. The empty string is treated as the absent
  field is.
\<close>

theorem empty_audio_data_is_skipped:
  assumes "json_loads env message = Inr (JObj d)"
    and "dict_get d ''type'' = Some (JStr ''audio'')"
    and "dict_get d ''audio_data'' = None \<or> dict_get d ''audio_data'' = Some JNull
           \<or> dict_get d ''audio_data'' = Some (JStr [])"
  shows "handle_message env ws message s = s"
  using assms by (auto simp: handle_message_def process_message_def ret_def)

theorem empty_audio_data_is_skipped_witness:
  "json_loads example_env msg_empty_audio =
     Inr (JObj [(''type'', JStr ''audio''), (''audio_data'', JStr [])])
   \<and> handle_message example_env example_ws msg_empty_audio start_state = start_state"
  using empty_audio_data_is_skipped [of example_env msg_empty_audio
      "[(''type'', JStr ''audio''), (''audio_data'', JStr [])]" example_ws start_state]
  by (simp add: example_defs)

text \<open>
  C2, as the code has it: for a message on which \<^verbatim>\<open>json.loads\<close> raises, the server
  sends no envelope; it writes one log line and handles the next message from the
  state so reached. The line is \<^verbatim>\<open>Invalid JSON message received.\<close> when the exception
  is \<^verbatim>\<open>JSONDecodeError\<close>, and \<^verbatim>\<open>Error processing message\<close> for another exception
  (\<^verbatim>\<open>RecursionError\<close>, \<^verbatim>\<open>UnicodeDecodeError\<close>). An envelope without \<^verbatim>\<open>type\<close> or
  without \<^verbatim>\<open>audio_data\<close> is passed over with neither an envelope nor a log line, and
  the loop goes on likewise.
\<close>

theorem undecodable_message_is_logged_only:
  assumes "json_loads env message = Inl e
           \<or> (json_loads env message = Inr (JObj d)
               \<and> (dict_get d ''type'' = None \<or> dict_get d ''audio_data'' = None))"
    and "line = (case e of
                   JSONDecodeError \<Rightarrow> ''Invalid JSON message received.''
                 | KeyError k \<Rightarrow> ''Missing key in message: '' @ k
                 | _ \<Rightarrow> ''Error processing message'')"
  shows "sent_of (trace (handle_message env ws message s)) = sent_of (trace s)
         \<and> logs_of (trace (handle_message env ws message s)) =
             logs_of (trace s) @
               (if json_loads env message = Inl e then [(ERROR, line)] else [])
         \<and> read_loop env ws (message # rest) s =
             read_loop env ws rest
               (if json_loads env message = Inl e
                then s\<lparr>trace := trace s @ [Log ERROR line]\<rparr>
                else s)"
  using assms
  by (cases e) (auto simp: handle_message_def process_message_def ret_def raise_def)

theorem undecodable_message_is_logged_only_witness:
  "json_loads example_env ''{'' = Inl JSONDecodeError
   \<and> sent_of (trace (handle_message example_env example_ws ''{'' start_state)) = []
   \<and> logs_of (trace (handle_message example_env example_ws ''{'' start_state)) =
        [(ERROR, ''Invalid JSON message received.'')]
   \<and> read_loop example_env example_ws [''{'', msg_empty_audio] start_state =
        start_state\<lparr>trace := [Log ERROR ''Invalid JSON message received.'']\<rparr>
   \<and> json_loads example_env msg_binary = Inl UnicodeDecodeError
   \<and> sent_of (trace (handle_message example_env example_ws msg_binary start_state)) = []
   \<and> logs_of (trace (handle_message example_env example_ws msg_binary start_state)) =
        [(ERROR, ''Error processing message'')]"
  using undecodable_message_is_logged_only [of example_env "''{''" JSONDecodeError "[]"
      "''Invalid JSON message received.''" example_ws start_state "[msg_empty_audio]"]
    undecodable_message_is_logged_only [of example_env msg_binary UnicodeDecodeError "[]"
      "''Error processing message''" example_ws start_state "[]"]
  by (simp add: example_defs handle_message_def process_message_def ret_def)

text \<open>
  The claim C2 as stated asks for an \<^verbatim>\<open>error\<close> envelope: here a message that is not
  JSON is answered by no envelope at all.
\<close>

theorem malformed_json_gets_error_envelope_counterexample:
  "json_loads example_env ''{'' = Inl JSONDecodeError
   \<and> sent_of (trace (handle_message example_env example_ws ''{'' start_state)) = []"
  by (simp add: example_defs handle_message_def process_message_def raise_def)

section \<open>The stages of a run\<close>

text \<open>
  The hypotheses shared below say that the message decodes to an \<^verbatim>\<open>audio\<close> envelope
  whose \<^verbatim>\<open>audio_data\<close> is a non-empty string that base64 accepts, and that the
  connection stays open, so that every send of the run succeeds.
\<close>

text \<open>
  C1, as the code has it: when the transcription engine call fails, \<^verbatim>\<open>transcribe\<close>
  returns the empty string, the server sends a \<^verbatim>\<open>transcription\<close> envelope with empty
  text and no \<^verbatim>\<open>error\<close> envelope for the failure, and the run goes on: the response
  engine is invoked with the empty transcript, its reply is sent, and the synthesis
  engine is invoked with that reply.
\<close>

theorem failed_transcription_is_sent_as_empty_text:
  assumes "json_loads env message = Inr (JObj d)"
    and "dict_get d ''type'' = Some (JStr ''audio'')"
    and "dict_get d ''audio_data'' = Some (JStr a)"
    and "a \<noteq> []"
    and "b64decode env a = Some b"
    and "closes_after ws = None"
    and "whisper env b = None"
  shows "sent_of (trace (handle_message env ws message s)) =
           sent_of (trace s) @
             [transcription_envelope [],
              response_envelope (reply_text (groq env [])),
              last_envelope env (elevenlabs env (reply_text (groq env [])))]
         \<and> calls_of (trace (handle_message env ws message s)) =
           calls_of (trace s) @
             [Transcribe (audio_file ws),
              Generate [],
              Synthesize (reply_text (groq env [])) (tts_output ws)]"
  using run_sent [OF assms(1-6), of s] run_calls [OF assms(1-6), of s] assms(7) by simp

theorem failed_transcription_is_sent_as_empty_text_witness:
  "whisper example_env ''A'' = None
   \<and> sent_of (trace (handle_message example_env example_ws msg_audio start_state)) =
       [transcription_envelope [],
        response_envelope ''Sorry, I couldn't process your request.'',
        audio_envelope ''SUQz'']
   \<and> Generate [] \<in> set (calls_of (trace (handle_message example_env example_ws msg_audio start_state)))"
  using failed_transcription_is_sent_as_empty_text [of example_env msg_audio
      "[(''type'', JStr ''audio''), (''audio_data'', JStr ''QQ=='')]" "''QQ==''" "''A''"
      example_ws start_state]
  by (simp add: example_defs)

text \<open>
  The claim C1 as stated has the run end with an \<^verbatim>\<open>error\<close> envelope and no later
  stage: here the speech model raises, and the three envelopes of a full run are
  sent, after calls of all three engines.
\<close>

theorem failed_transcription_ends_run_counterexample:
  "whisper example_env ''A'' = None
   \<and> sent_of (trace (handle_message example_env example_ws msg_audio start_state)) =
       [transcription_envelope [],
        response_envelope ''Sorry, I couldn't process your request.'',
        audio_envelope ''SUQz'']
   \<and> calls_of (trace (handle_message example_env example_ws msg_audio start_state)) =
       [Transcribe (audio_file example_ws),
        Generate [],
        Synthesize ''Sorry, I couldn't process your request.'' (tts_output example_ws)]"
  using run_sent [of example_env msg_audio
      "[(''type'', JStr ''audio''), (''audio_data'', JStr ''QQ=='')]" "''QQ==''" "''A''"
      example_ws start_state]
    run_calls [of example_env msg_audio
      "[(''type'', JStr ''audio''), (''audio_data'', JStr ''QQ=='')]" "''QQ==''" "''A''"
      example_ws start_state]
  by (simp add: example_defs)

text \<open>
  C7: when transcription succeeds with empty text, the server sends a
  \<^verbatim>\<open>transcription\<close> envelope whose text is the empty string and the run advances:
  the response engine is invoked with the empty transcript, then the synthesis
  engine with the reply. Silence has no branch of its own.
\<close>

theorem silence_is_passed_through:
  assumes "json_loads env message = Inr (JObj d)"
    and "dict_get d ''type'' = Some (JStr ''audio'')"
    and "dict_get d ''audio_data'' = Some (JStr a)"
    and "a \<noteq> []"
    and "b64decode env a = Some b"
    and "closes_after ws = None"
    and "whisper env b = Some segments"
    and "join_space segments = []"
  shows "sent_of (trace (handle_message env ws message s)) =
           sent_of (trace s) @
             [transcription_envelope [],
              response_envelope (reply_text (groq env [])),
              last_envelope env (elevenlabs env (reply_text (groq env [])))]
         \<and> calls_of (trace (handle_message env ws message s)) =
           calls_of (trace s) @
             [Transcribe (audio_file ws),
              Generate [],
              Synthesize (reply_text (groq env [])) (tts_output ws)]"
  using run_sent [OF assms(1-6), of s] run_calls [OF assms(1-6), of s] assms(7,8) by simp

theorem silence_is_passed_through_witness:
  "whisper silent_env ''A'' = Some [] \<and> join_space [] = []
   \<and> sent_of (trace (handle_message silent_env example_ws msg_audio start_state)) =
       [transcription_envelope [],
        response_envelope ''Sorry, I couldn't process your request.'',
        error_envelope ''TTS synthesis failed.'']
   \<and> calls_of (trace (handle_message silent_env example_ws msg_audio start_state)) =
       [Transcribe (audio_file example_ws),
        Generate [],
        Synthesize ''Sorry, I couldn't process your request.'' (tts_output example_ws)]"
  using silence_is_passed_through [of silent_env msg_audio
      "[(''type'', JStr ''audio''), (''audio_data'', JStr ''QQ=='')]" "''QQ==''" "''A''"
      example_ws "[]" start_state]
  by (simp add: example_defs)

text \<open>
  C5: when the response engine fails, the server still sends a \<^verbatim>\<open>response\<close> envelope
  right after the \<^verbatim>\<open>transcription\<close> envelope, and its text is a fixed fallback. The
  failures are all those the adapter handles: the post raises (a timeout, a network
  error); it returns a status other than 200 (so in particular any non-2xx status);
  or it returns 200 and reading the reply out of the body raises (a timeout or a
  network error inside \<^verbatim>\<open>response.json()\<close>, a body without the expected keys). The
  text is \<^verbatim>\<open>Sorry, I couldn't process your request.\<close> for a status other than 200
  whose body can be read, and \<^verbatim>\<open>Network error occurred.\<close> in every other case. No
  \<^verbatim>\<open>error\<close> envelope takes the place of the response; the run goes on to synthesis
  with the fallback text.
\<close>

theorem generation_failure_sends_fallback_response:
  assumes "json_loads env message = Inr (JObj d)"
    and "dict_get d ''type'' = Some (JStr ''audio'')"
    and "dict_get d ''audio_data'' = Some (JStr a)"
    and "a \<noteq> []"
    and "b64decode env a = Some b"
    and "closes_after ws = None"
    and "t = transcription_text (whisper env b)"
    and "groq env t = PostRaised
         \<or> (groq env t = PostReturned r \<and> (status r \<noteq> 200 \<or> content r = None))"
    and "fallback = (if groq env t = PostReturned r \<and> status r \<noteq> 200 \<and> text_ok r
                     then ''Sorry, I couldn't process your request.''
                     else ''Network error occurred.'')"
  shows "sent_of (trace (handle_message env ws message s)) =
           sent_of (trace s) @
             [transcription_envelope t,
              response_envelope fallback,
              last_envelope env (elevenlabs env fallback)]"
  using run_sent [OF assms(1-6), of s] assms(7-9) by auto

theorem generation_failure_sends_fallback_response_witness:
  "groq example_env [] = PostReturned \<lparr>status = 500, text_ok = True, content = None\<rparr>
   \<and> sent_of (trace (handle_message example_env example_ws msg_audio start_state)) =
       [transcription_envelope [],
        response_envelope ''Sorry, I couldn't process your request.'',
        audio_envelope ''SUQz'']
   \<and> groq broken_body_env [] = PostReturned \<lparr>status = 200, text_ok = True, content = None\<rparr>
   \<and> sent_of (trace (handle_message broken_body_env example_ws msg_audio start_state)) =
       [transcription_envelope [],
        response_envelope ''Network error occurred.'',
        audio_envelope ''SUQz'']"
  using generation_failure_sends_fallback_response [of example_env msg_audio
      "[(''type'', JStr ''audio''), (''audio_data'', JStr ''QQ=='')]" "''QQ==''" "''A''"
      example_ws "[]" "\<lparr>status = 500, text_ok = True, content = None\<rparr>"
      "''Sorry, I couldn't process your request.''" start_state]
    generation_failure_sends_fallback_response [of broken_body_env msg_audio
      "[(''type'', JStr ''audio''), (''audio_data'', JStr ''QQ=='')]" "''QQ==''" "''A''"
      example_ws "[]" "\<lparr>status = 200, text_ok = True, content = None\<rparr>"
      "''Network error occurred.''" start_state]
  by (simp add: example_defs broken_body_env_def)

text \<open>
  C6: when synthesis fails, the envelopes of the run are the \<^verbatim>\<open>transcription\<close>
  envelope, the \<^verbatim>\<open>response\<close> envelope with the reply, and last an \<^verbatim>\<open>error\<close> envelope
  with the message \<^verbatim>\<open>TTS synthesis failed.\<close>: the response stays sent, and nothing
  follows the error.
\<close>

theorem synthesis_failure_sends_error_after_response:
  assumes "json_loads env message = Inr (JObj d)"
    and "dict_get d ''type'' = Some (JStr ''audio'')"
    and "dict_get d ''audio_data'' = Some (JStr a)"
    and "a \<noteq> []"
    and "b64decode env a = Some b"
    and "closes_after ws = None"
    and "t = transcription_text (whisper env b)"
    and "r = reply_text (groq env t)"
    and "\<not> synthesized (elevenlabs env r)"
  shows "sent_of (trace (handle_message env ws message s)) =
           sent_of (trace s) @
             [transcription_envelope t, response_envelope r,
              error_envelope ''TTS synthesis failed.'']"
  using run_sent [OF assms(1-6), of s] assms(7-9)
  by (cases "elevenlabs env r") auto

theorem synthesis_failure_sends_error_after_response_witness:
  "\<not> synthesized (elevenlabs silent_env ''Sorry, I couldn't process your request.'')
   \<and> sent_of (trace (handle_message silent_env example_ws msg_audio start_state)) =
       [transcription_envelope [],
        response_envelope ''Sorry, I couldn't process your request.'',
        error_envelope ''TTS synthesis failed.'']"
  using synthesis_failure_sends_error_after_response [of silent_env msg_audio
      "[(''type'', JStr ''audio''), (''audio_data'', JStr ''QQ=='')]" "''QQ==''" "''A''"
      example_ws "[]" "''Sorry, I couldn't process your request.''" start_state]
  by (simp add: example_defs)

text \<open>
  C4, as the code has it: for a decoded \<^verbatim>\<open>audio\<close> envelope with a non-empty string as
  \<^verbatim>\<open>audio_data\<close>, the envelopes sent are always an initial part of the sequence
  \<^verbatim>\<open>transcription\<close>, \<^verbatim>\<open>response\<close>, then \<^verbatim>\<open>audio\<close> or \<^verbatim>\<open>error\<close>, in that order; when
  base64 accepts the data and the connection stays open it is the whole sequence;
  when base64 rejects the data no envelope is sent at all.
\<close>

theorem audio_request_envelopes_in_order:
  assumes "json_loads env message = Inr (JObj d)"
    and "dict_get d ''type'' = Some (JStr ''audio'')"
    and "dict_get d ''audio_data'' = Some (JStr a)"
    and "a \<noteq> []"
  shows "case b64decode env a of
           None \<Rightarrow> sent_of (trace (handle_message env ws message s)) = sent_of (trace s)
         | Some b \<Rightarrow>
             (\<exists>k. sent_of (trace (handle_message env ws message s)) =
                sent_of (trace s) @ take k
                  [transcription_envelope (transcription_text (whisper env b)),
                   response_envelope (reply_text (groq env (transcription_text (whisper env b)))),
                   last_envelope env (elevenlabs env
                     (reply_text (groq env (transcription_text (whisper env b)))))])
             \<and> (closes_after ws = None \<longrightarrow>
                sent_of (trace (handle_message env ws message s)) =
                sent_of (trace s) @
                  [transcription_envelope (transcription_text (whisper env b)),
                   response_envelope (reply_text (groq env (transcription_text (whisper env b)))),
                   last_envelope env (elevenlabs env
                     (reply_text (groq env (transcription_text (whisper env b)))))])"
proof (cases "b64decode env a")
  case None
  with assms show ?thesis
    by (simp add: handle_message_def process_message_def decode_audio_data_def)
next
  case (Some b)
  from run_sent_prefix [OF assms Some, of ws s] run_sent [OF assms Some, of ws s] Some
  show ?thesis by simp
qed

theorem audio_request_envelopes_in_order_witness:
  "b64decode example_env ''QQ=='' = Some ''A''
   \<and> sent_of (trace (handle_message example_env example_ws msg_audio start_state)) =
       [transcription_envelope [],
        response_envelope ''Sorry, I couldn't process your request.'',
        audio_envelope ''SUQz'']"
  using audio_request_envelopes_in_order [of example_env msg_audio
      "[(''type'', JStr ''audio''), (''audio_data'', JStr ''QQ=='')]" "''QQ==''"
      example_ws start_state]
  by (simp add: example_defs)

text \<open>
  The claim C4 as stated excludes a decoded request with no outbound envelope: here
  the message decodes to an \<^verbatim>\<open>audio\<close> envelope with its field, and nothing is sent.
\<close>

theorem decoded_audio_request_without_reply_counterexample:
  "json_loads example_env msg_bad_base64 =
     Inr (JObj [(''type'', JStr ''audio''), (''audio_data'', JStr ''Q'')])
   \<and> sent_of (trace (handle_message example_env example_ws msg_bad_base64 start_state)) = []"
  by (simp add: example_defs handle_message_def process_message_def decode_audio_data_def)

section \<open>Scratch files\<close>

text \<open>
  C3 does not hold of the code. The two \<^verbatim>\<open>unlink\<close> calls are the last statements of
  the \<^verbatim>\<open>try\<close> body, so an exception before them skips both. When the peer closes
  before the first envelope, the staged audio file stays; when it closes after two
  envelopes, the staged file and the synthesized file both stay; when base64 rejects
  the data, the staged file stays, empty. No \<^verbatim>\<open>unlink\<close> is called in any of the three.
  (With the connection open throughout, \<open>run_files\<close> shows both files removed,
  each by one \<^verbatim>\<open>unlink\<close>.)
\<close>

theorem scratch_files_left_behind:
  "files (handle_message example_env closing_ws msg_audio start_state)
     ''temp_audio/client_7.wav'' = Some ''A''
   \<and> unlinks_of (trace (handle_message example_env closing_ws msg_audio start_state)) = []
   \<and> files (handle_message example_env closing_late_ws msg_audio start_state)
         ''temp_audio/client_7.wav'' = Some ''A''
   \<and> files (handle_message example_env closing_late_ws msg_audio start_state)
         ''temp_audio/client_7.mp3'' = Some ''ID3''
   \<and> unlinks_of (trace (handle_message example_env closing_late_ws msg_audio start_state)) = []
   \<and> files (handle_message example_env example_ws msg_bad_base64 start_state)
         ''temp_audio/client_7.wav'' = Some []
   \<and> unlinks_of (trace (handle_message example_env example_ws msg_bad_base64 start_state)) = []"
  by (simp add: example_defs closing_ws_def closing_late_ws_def run_defs
        audio_file_def tts_output_def decimal.simps digit_def)

section \<open>The client\<close>

text \<open>
  C10: for a received envelope whose \<^verbatim>\<open>type\<close> is \<^verbatim>\<open>error\<close>, \<^verbatim>\<open>receive_messages\<close>
  logs nothing, plays nothing and raises nothing, and goes on with the next message:
  the envelope is dropped.
\<close>

theorem client_drops_error_envelopes:
  assumes "json_loads env message = Inr (JObj d)"
    and "dict_get d ''type'' = Some (JStr ''error'')"
  shows "on_message env message = ([], None)
         \<and> receive_loop env (message # rest) = receive_loop env rest
         \<and> receive_messages env (message # rest) closed_with_error =
             receive_messages env rest closed_with_error"
  using assms by (simp add: on_message_def receive_messages_def)

theorem client_drops_error_envelopes_witness:
  "json_loads example_env msg_error = Inr (error_envelope ''TTS synthesis failed.'')
   \<and> on_message example_env msg_error = ([], None)
   \<and> receive_loop example_env [msg_error, msg_error] = ([], None)
   \<and> receive_messages example_env [msg_error, msg_error] False = ([], None)"
  using client_drops_error_envelopes [of example_env msg_error
      "[(''type'', JStr ''error''), (''message'', JStr ''TTS synthesis failed.'')]" "[msg_error]"]
    client_drops_error_envelopes [of example_env msg_error
      "[(''type'', JStr ''error''), (''message'', JStr ''TTS synthesis failed.'')]" "[]"]
  by (simp add: example_defs error_envelope_def receive_messages_def)

end
